theory Spec2Isabelle
  imports Complex_Main "HOL-Library.Word" "HOL-Library.AList" "HOL-Library.Sublist"
begin

unbundle bit_operations_syntax

section \<open>Text, bytes and exceptions\<close>

text \<open>
  A Python \<^verbatim>\<open>str\<close> is a sequence of Unicode code points, and \<^verbatim>\<open>len\<close>, slicing and
  \<^verbatim>\<open>read(n)\<close> on a text file count code points. A file on disk is a sequence of bytes.
\<close>

type_synonym codepoint = nat
type_synonym utext = "codepoint list"
type_synonym byte = "8 word"

definition ch :: "char \<Rightarrow> codepoint" where
  "ch c = of_char c"

definition str :: "string \<Rightarrow> utext" where
  "str s = map ch s"

definition ascii :: "string \<Rightarrow> byte list" where
  "ascii s = map of_char s"

text \<open>
  The exceptions the script can meet. All of them are subclasses of \<^verbatim>\<open>Exception\<close>, so
  both \<^verbatim>\<open>except Exception\<close> and a bare \<^verbatim>\<open>except\<close> catch every one of them. The
  argument is the message \<^verbatim>\<open>str(e)\<close> returns.
\<close>

datatype exn =
    OSError utext
  | OverflowError utext
  | ValueError utext
  | JSONDecodeError utext
  | RecursionError utext
  | AttributeError utext

fun exn_str :: "exn \<Rightarrow> utext" where
  "exn_str (OSError m) = m"
| "exn_str (OverflowError m) = m"
| "exn_str (ValueError m) = m"
| "exn_str (JSONDecodeError m) = m"
| "exn_str (RecursionError m) = m"
| "exn_str (AttributeError m) = m"

section \<open>The file system as the script sees it\<close>

text \<open>
  What one \<^verbatim>\<open>open\<close> of a path, followed by a read, observes: the open raises, the read
  raises, or the file holds some bytes. The script opens the same path up to four times
  in a row; \<open>opened w n\<close> is what the \<open>n\<close>-th open of a run observes, so a file may
  change or vanish between two opens. \<open>getsize w\<close> is \<^verbatim>\<open>os.path.getsize\<close>, and
  \<open>recursion_room w\<close> the number of nested calls the interpreter still allows when
  \<^verbatim>\<open>json.loads\<close> starts.
\<close>

datatype file_view = OpenFails exn | ReadFails exn | Holds "byte list"

record world =
  getsize :: "utext \<Rightarrow> exn + nat"
  opened :: "nat \<Rightarrow> utext \<Rightarrow> file_view"
  recursion_room :: nat

section \<open>Library functions of Python the script calls\<close>

subsection \<open>Decoding UTF-8 with \<^verbatim>\<open>errors='ignore'\<close>\<close>

definition is_continuation_byte :: "byte \<Rightarrow> bool" where
  "is_continuation_byte b = (0x80 \<le> b \<and> b < 0xC0)"

text \<open>
  CPython's UTF-8 decoder with the \<^verbatim>\<open>ignore\<close> error handler. A byte that cannot start a
  sequence is skipped; when a continuation byte is wrong, the bytes of the sequence before
  it are skipped and decoding resumes at the offending byte; a sequence cut off by the end
  of the data is skipped. Nothing is put in the place of what is skipped.
\<close>

fun utf8_decode_ignore :: "byte list \<Rightarrow> utext" where
  "utf8_decode_ignore [] = []"
| "utf8_decode_ignore (c # s) =
    (if c < 0x80 then unat c # utf8_decode_ignore s
     else if c < 0xC2 then utf8_decode_ignore s
     else if c < 0xE0 then
       (case s of
          [] \<Rightarrow> []
        | c2 # s2 \<Rightarrow>
            if \<not> is_continuation_byte c2 then utf8_decode_ignore s
            else (unat (c AND 0x1F) * 64 + unat (c2 AND 0x3F)) # utf8_decode_ignore s2)
     else if c < 0xF0 then
       (case s of
          [] \<Rightarrow> []
        | c2 # s2 \<Rightarrow>
            if \<not> is_continuation_byte c2 \<or> (if c2 < 0xA0 then c = 0xE0 else c = 0xED)
            then utf8_decode_ignore s
            else (case s2 of
                    [] \<Rightarrow> []
                  | c3 # s3 \<Rightarrow>
                      if \<not> is_continuation_byte c3 then utf8_decode_ignore s2
                      else (unat (c AND 0x0F) * 4096 + unat (c2 AND 0x3F) * 64
                              + unat (c3 AND 0x3F)) # utf8_decode_ignore s3))
     else if c < 0xF5 then
       (case s of
          [] \<Rightarrow> []
        | c2 # s2 \<Rightarrow>
            if \<not> is_continuation_byte c2 \<or> (if c2 < 0x90 then c = 0xF0 else c = 0xF4)
            then utf8_decode_ignore s
            else (case s2 of
                    [] \<Rightarrow> []
                  | c3 # s3 \<Rightarrow>
                      if \<not> is_continuation_byte c3 then utf8_decode_ignore s2
                      else (case s3 of
                              [] \<Rightarrow> []
                            | c4 # s4 \<Rightarrow>
                                if \<not> is_continuation_byte c4 then utf8_decode_ignore s3
                                else (unat (c AND 0x07) * 262144 + unat (c2 AND 0x3F) * 4096
                                        + unat (c3 AND 0x3F) * 64 + unat (c4 AND 0x3F))
                                     # utf8_decode_ignore s4)))
     else utf8_decode_ignore s)"

subsection \<open>Text files: universal newlines and \<^verbatim>\<open>read(n)\<close>\<close>

text \<open>
  A file opened in text mode with the default \<^verbatim>\<open>newline=None\<close> gives \<^verbatim>\<open>\n\<close> for each
  of \<^verbatim>\<open>\r\n\<close> and \<^verbatim>\<open>\r\<close>.
\<close>

fun universal_newlines :: "utext \<Rightarrow> utext" where
  "universal_newlines [] = []"
| "universal_newlines [c] = (if c = 13 then [10] else [c])"
| "universal_newlines (c # d # cs) =
    (if c = 13 then
       (if d = 10 then 10 # universal_newlines cs else 10 # universal_newlines (d # cs))
     else c # universal_newlines (d # cs))"

definition decode_file :: "byte list \<Rightarrow> utext" where
  "decode_file bs = universal_newlines (utf8_decode_ignore bs)"

definition py_ssize_t_max :: int where
  "py_ssize_t_max = 2 ^ 63 - 1"

text \<open>
  \<^verbatim>\<open>with open(p, 'r', encoding='utf-8', errors='ignore') as f: f.read(n)\<close>. The size is
  converted to a \<^verbatim>\<open>Py_ssize_t\<close> before anything is read; a negative size reads the whole
  file; otherwise at most \<open>n\<close> characters (not bytes) are returned.
\<close>

definition read_size_error :: exn where
  "read_size_error = OverflowError (str ''cannot fit 'int' into an index-sized integer'')"

fun read_text :: "file_view \<Rightarrow> int \<Rightarrow> exn + utext" where
  "read_text (OpenFails e) n = Inl e"
| "read_text (ReadFails e) n =
    (if n > py_ssize_t_max \<or> n < - py_ssize_t_max - 1 then Inl read_size_error else Inl e)"
| "read_text (Holds bs) n =
    (if n > py_ssize_t_max \<or> n < - py_ssize_t_max - 1 then Inl read_size_error
     else if n < 0 then Inr (decode_file bs)
     else Inr (take (nat n) (decode_file bs)))"

subsection \<open>String methods\<close>

text \<open>\<^verbatim>\<open>s.replace(old, new)\<close>: the occurrences of \<open>old\<close> from left to right, not overlapping.\<close>

definition startswith :: "utext \<Rightarrow> utext \<Rightarrow> bool" where
  "startswith s p = (take (length p) s = p)"

fun str_replace :: "utext \<Rightarrow> utext \<Rightarrow> utext \<Rightarrow> utext" where
  "str_replace [] new s = new @ concat (map (\<lambda>c. c # new) s)"
| "str_replace (v # va) new [] = []"
| "str_replace (v # va) new (c # cs) =
    (if startswith (c # cs) (v # va)
     then new @ str_replace (v # va) new (drop (length va) cs)
     else c # str_replace (v # va) new cs)"

text \<open>
  \<^verbatim>\<open>str.isspace\<close> for one character, which is also what \<^verbatim>\<open>\s\<close> matches in a
  \<^verbatim>\<open>str\<close> pattern.
\<close>

definition is_space :: "codepoint \<Rightarrow> bool" where
  "is_space c =
    ((9 \<le> c \<and> c \<le> 13) \<or> (28 \<le> c \<and> c \<le> 32) \<or> c = 133 \<or> c = 160 \<or> c = 5760
     \<or> (8192 \<le> c \<and> c \<le> 8202) \<or> c = 8232 \<or> c = 8233 \<or> c = 8239 \<or> c = 8287 \<or> c = 12288)"

definition strip :: "utext \<Rightarrow> utext" where
  "strip s = rev (dropWhile is_space (rev (dropWhile is_space s)))"

fun join :: "utext \<Rightarrow> utext list \<Rightarrow> utext" where
  "join sep [] = []"
| "join sep [x] = x"
| "join sep (x # y # ys) = x @ sep @ join sep (y # ys)"

text \<open>\<^verbatim>\<open>xs[:m]\<close> for an integer \<open>m\<close>: a negative \<open>m\<close> counts from the end.\<close>

definition slice_to :: "'a list \<Rightarrow> int \<Rightarrow> 'a list" where
  "slice_to xs m = (if 0 \<le> m then take (nat m) xs else take (length xs - nat (- m)) xs)"

subsection \<open>The regular expression of the key search\<close>

text \<open>
  \<^verbatim>\<open>\s*:\<close> at the head of the text: the lookahead \<^verbatim>\<open>(?=\s*:)\<close>.
\<close>

definition colon_ahead :: "utext \<Rightarrow> bool" where
  "colon_ahead s = (case dropWhile is_space s of [] \<Rightarrow> False | c # _ \<Rightarrow> c = ch CHR '':'')"

text \<open>
  \<^verbatim>\<open>re.findall(r'"([^"]+)"(?=\s*:)', s)\<close>: the groups of the matches found from left to
  right. A match can only start at a double quote. There \<^verbatim>\<open>[^"]+\<close> has to take the whole
  run of characters up to the next double quote (after a shorter run the pattern wants a
  quote and finds another character), the run must not be empty, the closing quote must
  exist and the lookahead must hold. After a match the search goes on after the closing
  quote (the lookahead consumes nothing); after a failure, one character further.
\<close>

function findall_keys :: "utext \<Rightarrow> utext list" where
  "findall_keys [] = []"
| "findall_keys (c # cs) =
    (if c = ch CHR 0x22 then
       (let key = takeWhile (\<lambda>x. x \<noteq> ch CHR 0x22) cs;
            rest = dropWhile (\<lambda>x. x \<noteq> ch CHR 0x22) cs
        in if key \<noteq> [] \<and> rest \<noteq> [] \<and> colon_ahead (tl rest)
           then key # findall_keys (tl rest)
           else findall_keys cs)
     else findall_keys cs)"
  by pat_completeness auto
termination
proof (relation "measure length")
  fix c :: codepoint and cs key rest :: utext
  assume "rest = dropWhile (\<lambda>x. x \<noteq> ch CHR 0x22) cs"
  then have "length rest \<le> length cs"
    by (simp add: length_dropWhile_le)
  then have "length (tl rest) \<le> length cs"
    by simp
  then show "(tl rest, c # cs) \<in> measure length" by simp
qed simp_all

subsection \<open>\<^verbatim>\<open>json.loads\<close>\<close>

text \<open>
  The decoder of CPython's \<^verbatim>\<open>json\<close> module (the C scanner), as far as the script can
  observe it: whether a text parses, and as what. A number is kept as its lexeme. An object
  is a Python \<^verbatim>\<open>dict\<close>: an association list in insertion order in which a key that comes
  again keeps its place and takes the new value (\<^const>\<open>AList.update\<close>). The message of a
  \<^verbatim>\<open>JSONDecodeError\<close> is given without its position.
\<close>

datatype json =
    JNull
  | JBool bool
  | JNumber utext
  | JString utext
  | JArray "json list"
  | JObject "(utext \<times> json) list"

definition json_error :: "utext \<Rightarrow> exn" where
  "json_error m = JSONDecodeError m"

definition expecting_value :: exn where
  "expecting_value = json_error (str ''Expecting value'')"

definition is_json_ws :: "codepoint \<Rightarrow> bool" where
  "is_json_ws c = (c = 32 \<or> c = 9 \<or> c = 10 \<or> c = 13)"

definition skip_ws :: "utext \<Rightarrow> utext" where
  "skip_ws s = dropWhile is_json_ws s"

definition is_digit :: "codepoint \<Rightarrow> bool" where
  "is_digit c = (48 \<le> c \<and> c \<le> 57)"

definition hex_digit :: "codepoint \<Rightarrow> nat option" where
  "hex_digit c =
    (if 48 \<le> c \<and> c \<le> 57 then Some (c - 48)
     else if 97 \<le> c \<and> c \<le> 102 then Some (c - 87)
     else if 65 \<le> c \<and> c \<le> 70 then Some (c - 55)
     else None)"

fun hex4 :: "utext \<Rightarrow> nat option" where
  "hex4 [a, b, c, d] =
    (case hex_digit a of None \<Rightarrow> None | Some x \<Rightarrow>
     case hex_digit b of None \<Rightarrow> None | Some y \<Rightarrow>
     case hex_digit c of None \<Rightarrow> None | Some z \<Rightarrow>
     case hex_digit d of None \<Rightarrow> None | Some w \<Rightarrow>
       Some (((x * 16 + y) * 16 + z) * 16 + w))"
| "hex4 _ = None"

definition simple_escape :: "codepoint \<Rightarrow> codepoint option" where
  "simple_escape e =
    (if e = ch CHR 0x22 \<or> e = ch CHR 0x5C \<or> e = ch CHR ''/'' then Some e
     else if e = ch CHR ''b'' then Some 8
     else if e = ch CHR ''f'' then Some 12
     else if e = ch CHR ''n'' then Some 10
     else if e = ch CHR ''r'' then Some 13
     else if e = ch CHR ''t'' then Some 9
     else None)"

definition is_high_surrogate :: "nat \<Rightarrow> bool" where
  "is_high_surrogate u = (0xD800 \<le> u \<and> u \<le> 0xDBFF)"

definition is_low_surrogate :: "nat \<Rightarrow> bool" where
  "is_low_surrogate u = (0xDC00 \<le> u \<and> u \<le> 0xDFFF)"

definition join_surrogates :: "nat \<Rightarrow> nat \<Rightarrow> codepoint" where
  "join_surrogates u u2 = 0x10000 + ((u mod 1024) * 1024 + u2 mod 1024)"

definition string_cons :: "codepoint \<Rightarrow> exn + utext \<times> utext \<Rightarrow> exn + utext \<times> utext" where
  "string_cons x res = (case res of Inl e \<Rightarrow> Inl e | Inr (s, rest) \<Rightarrow> Inr (x # s, rest))"

text \<open>
  \<^verbatim>\<open>scanstring\<close> in strict mode, on the text after the opening quote: the decoded string
  and the text after the closing quote. A high surrogate escape takes a following
  \<^verbatim>\<open>\uXXXX\<close> as its other half only when more than six characters follow it.
\<close>

function scanstring :: "utext \<Rightarrow> exn + utext \<times> utext" where
  "scanstring [] = Inl (json_error (str ''Unterminated string starting at''))"
| "scanstring (c # cs) =
    (if c = ch CHR 0x22 then Inr ([], cs)
     else if c = ch CHR 0x5C then
       (case cs of
          [] \<Rightarrow> Inl (json_error (str ''Unterminated string starting at''))
        | e # r \<Rightarrow>
            if e \<noteq> ch CHR ''u'' then
              (case simple_escape e of
                 None \<Rightarrow> Inl (json_error (str ''Invalid escape''))
               | Some x \<Rightarrow> string_cons x (scanstring r))
            else
              (case hex4 (take 4 r) of
                 None \<Rightarrow> Inl (json_error (str ''Invalid uXXXX escape''))
               | Some u \<Rightarrow>
                   if is_high_surrogate u \<and> 6 < length (drop 4 r)
                      \<and> take 2 (drop 4 r) = [ch CHR 0x5C, ch CHR ''u'']
                   then
                     (case hex4 (take 4 (drop 6 r)) of
                        None \<Rightarrow> Inl (json_error (str ''Invalid uXXXX escape''))
                      | Some u2 \<Rightarrow>
                          if is_low_surrogate u2
                          then string_cons (join_surrogates u u2) (scanstring (drop 10 r))
                          else string_cons u (scanstring (drop 4 r)))
                   else string_cons u (scanstring (drop 4 r))))
     else if c \<le> 0x1F then Inl (json_error (str ''Invalid control character at''))
     else string_cons c (scanstring cs))"
  by pat_completeness auto
termination
  by (relation "measure length") simp_all

definition max_str_digits :: nat where
  "max_str_digits = 4300"

text \<open>
  \<^verbatim>\<open>_match_number\<close>: an optional minus sign, the integer digits (a single \<^verbatim>\<open>0\<close>, or
  a digit from 1 to 9 and all digits after it), a fraction when a dot and a digit follow, an
  exponent when at least one digit ends it. An integer lexeme goes through \<^verbatim>\<open>int\<close>,
  which refuses more than \<^const>\<open>max_str_digits\<close> digits.
\<close>

definition match_number :: "utext \<Rightarrow> exn + json \<times> utext" where
  "match_number s =
    (let neg = startswith s (str ''-'');
         s1 = (if neg then tl s else s)
     in if s1 = [] \<or> \<not> is_digit (hd s1) then Inl expecting_value
        else
          let int_digits =
                (if hd s1 = ch CHR ''0'' then [hd s1] else hd s1 # takeWhile is_digit (tl s1));
              s2 = drop (length int_digits) s1;
              frac =
                (case s2 of
                   p # f # r \<Rightarrow>
                     if p = ch CHR ''.'' \<and> is_digit f then p # f # takeWhile is_digit r else []
                 | _ \<Rightarrow> []);
              s3 = drop (length frac) s2;
              expo =
                (case s3 of
                   [] \<Rightarrow> []
                 | e # r \<Rightarrow>
                     if r \<noteq> [] \<and> (e = ch CHR ''e'' \<or> e = ch CHR ''E'') then
                       (let sign =
                              (case r of
                                 [] \<Rightarrow> []
                               | g # r' \<Rightarrow>
                                   if r' \<noteq> [] \<and> (g = ch CHR ''-'' \<or> g = ch CHR ''+'')
                                   then [g] else []);
                            ds = takeWhile is_digit (drop (length sign) r)
                        in if ds \<noteq> [] then e # sign @ ds else [])
                     else []);
              s4 = drop (length expo) s3;
              numstr = (if neg then str ''-'' else []) @ int_digits @ frac @ expo
          in if frac = [] \<and> expo = [] \<and> max_str_digits < length int_digits
             then Inl (ValueError (str ''Exceeds the limit (4300 digits) for integer string conversion''))
             else Inr (JNumber numstr, s4))"

definition recursion_error :: exn where
  "recursion_error =
    RecursionError (str ''maximum recursion depth exceeded while decoding a JSON document'')"

text \<open>
  The cases of \<^verbatim>\<open>scan_once\<close> that read no nested value: the named constants, and a
  number when none of them is there.
\<close>

definition scan_constant :: "utext \<Rightarrow> exn + json \<times> utext" where
  "scan_constant s =
    (if startswith s (str ''null'') then Inr (JNull, drop 4 s)
     else if startswith s (str ''true'') then Inr (JBool True, drop 4 s)
     else if startswith s (str ''false'') then Inr (JBool False, drop 5 s)
     else if startswith s (str ''NaN'') then Inr (JNumber (str ''NaN''), drop 3 s)
     else if startswith s (str ''Infinity'') then Inr (JNumber (str ''Infinity''), drop 8 s)
     else if startswith s (str ''-Infinity'') then Inr (JNumber (str ''-Infinity''), drop 9 s)
     else match_number s)"

text \<open>
  The parts of the member loop of an object that read no value. \<open>read_key s\<close> reads a
  key at the head of \<open>s\<close>, the colon after it and the whitespace around the colon: the
  key and the text at the value. \<open>after_value close s\<close> reads what follows a member or
  an element: the closing bracket \<open>close\<close> (the result is \<open>(True, rest)\<close>) or a comma
  and the whitespace after it (\<open>(False, rest)\<close>).
\<close>

definition read_key :: "utext \<Rightarrow> exn + utext \<times> utext" where
  "read_key s =
    (if \<not> startswith s [ch CHR 0x22]
     then Inl (json_error (str ''Expecting property name enclosed in double quotes''))
     else
       (case scanstring (tl s) of
          Inl e \<Rightarrow> Inl e
        | Inr (key, r) \<Rightarrow>
            if \<not> startswith (skip_ws r) (str '':'')
            then Inl (json_error (str ''Expecting : delimiter''))
            else Inr (key, skip_ws (tl (skip_ws r)))))"

definition after_value :: "codepoint \<Rightarrow> utext \<Rightarrow> exn + bool \<times> utext" where
  "after_value close s =
    (if startswith (skip_ws s) [close] then Inr (True, tl (skip_ws s))
     else if \<not> startswith (skip_ws s) (str '','')
     then Inl (json_error (str ''Expecting , delimiter''))
     else Inr (False, skip_ws (tl (skip_ws s))))"

text \<open>
  \<open>scan_once room s\<close> reads one JSON value at the head of \<open>s\<close>; \<open>room\<close> is the number
  of nested objects and arrays the interpreter's recursion limit still allows.
  \<open>parse_object room k d s\<close> is the member loop of an object, \<open>d\<close> the dictionary built so
  far and \<open>s\<close> the text at the next key; \<open>parse_array\<close> is the element loop of an array.
  The count \<open>k\<close> bounds the rounds of a loop; it starts at the length of the text, and
  each round consumes at least one character.
\<close>

function (sequential) scan_once :: "nat \<Rightarrow> utext \<Rightarrow> exn + json \<times> utext"
  and parse_object :: "nat \<Rightarrow> nat \<Rightarrow> (utext \<times> json) list \<Rightarrow> utext \<Rightarrow> exn + json \<times> utext"
  and parse_array :: "nat \<Rightarrow> nat \<Rightarrow> json list \<Rightarrow> utext \<Rightarrow> exn + json \<times> utext"
where
  "scan_once room [] = Inl expecting_value"
| "scan_once room (c # cs) =
    (if c = ch CHR 0x22 then
       (case scanstring cs of Inl e \<Rightarrow> Inl e | Inr (s, r) \<Rightarrow> Inr (JString s, r))
     else if c = ch CHR ''{'' then
       (case room of
          0 \<Rightarrow> Inl recursion_error
        | Suc room' \<Rightarrow>
            if startswith (skip_ws cs) (str ''}'') then Inr (JObject [], tl (skip_ws cs))
            else parse_object room' (length (skip_ws cs)) [] (skip_ws cs))
     else if c = ch CHR ''['' then
       (case room of
          0 \<Rightarrow> Inl recursion_error
        | Suc room' \<Rightarrow>
            if startswith (skip_ws cs) (str '']'') then Inr (JArray [], tl (skip_ws cs))
            else parse_array room' (length (skip_ws cs)) [] (skip_ws cs))
     else scan_constant (c # cs))"
| "parse_object room 0 d s = Inl recursion_error"
| "parse_object room (Suc k) d s =
    (case read_key s of
       Inl e \<Rightarrow> Inl e
     | Inr (key, r1) \<Rightarrow>
         (case scan_once room r1 of
            Inl e \<Rightarrow> Inl e
          | Inr (val, r2) \<Rightarrow>
              (case after_value (ch CHR ''}'') r2 of
                 Inl e \<Rightarrow> Inl e
               | Inr (done_here, r3) \<Rightarrow>
                   if done_here then Inr (JObject (AList.update key val d), r3)
                   else parse_object room k (AList.update key val d) r3)))"
| "parse_array room 0 xs s = Inl recursion_error"
| "parse_array room (Suc k) xs s =
    (case scan_once room s of
       Inl e \<Rightarrow> Inl e
     | Inr (val, r1) \<Rightarrow>
         (case after_value (ch CHR '']'') r1 of
            Inl e \<Rightarrow> Inl e
          | Inr (done_here, r2) \<Rightarrow>
              if done_here then Inr (JArray (xs @ [val]), r2)
              else parse_array room k (xs @ [val]) r2))"
  by pat_completeness auto
termination
  by (relation "inv_image (less_than <*lex*> less_than)
        (\<lambda>x. case x of
               Inl (room, s) \<Rightarrow> (room, 0)
             | Inr (Inl (room, k, d, s)) \<Rightarrow> (room, Suc k)
             | Inr (Inr (room, k, xs, s)) \<Rightarrow> (room, Suc k))") auto

text \<open>
  \<^verbatim>\<open>json.loads(s)\<close> for a \<^verbatim>\<open>str\<close>: no byte order mark, one value between optional
  whitespace, and nothing after it.
\<close>

definition json_loads :: "nat \<Rightarrow> utext \<Rightarrow> exn + json" where
  "json_loads room s =
    (if startswith s [0xFEFF]
     then Inl (json_error (str ''Unexpected UTF-8 BOM (decode using utf-8-sig)''))
     else
       (case scan_once room (skip_ws s) of
          Inl e \<Rightarrow> Inl e
        | Inr (obj, r) \<Rightarrow>
            if skip_ws r \<noteq> [] then Inl (json_error (str ''Extra data'')) else Inr obj))"

section \<open>The script\<close>

subsection \<open>\<^verbatim>\<open>analyze_json_structure\<close>\<close>

text \<open>
  The loop over \<^verbatim>\<open>keys\<close> that fills \<^verbatim>\<open>unique_keys\<close>: a key is appended when it is not
  yet in the list and the list is shorter than \<^verbatim>\<open>max_items\<close>.
\<close>

fun unique_keys_loop :: "int \<Rightarrow> utext list \<Rightarrow> utext list \<Rightarrow> utext list" where
  "unique_keys_loop max_items unique_keys [] = unique_keys"
| "unique_keys_loop max_items unique_keys (key # keys) =
    unique_keys_loop max_items
      (if key \<notin> set unique_keys \<and> int (length unique_keys) < max_items
       then unique_keys @ [key] else unique_keys)
      keys"

definition nan_to_null :: "utext \<Rightarrow> utext" where
  "nan_to_null s = str_replace (str ''NaN'') (str ''null'') s"

definition tier1_keys :: "utext \<Rightarrow> utext list" where
  "tier1_keys clean_content = findall_keys (take 1000 clean_content)"

definition keys_including :: "utext list \<Rightarrow> utext" where
  "keys_including keys = str ''JSON object with keys including: '' @ join (str '', '') keys"

text \<open>The body of the outer \<^verbatim>\<open>try\<close>: the first attempt.\<close>

definition tier1 :: "file_view \<Rightarrow> int \<Rightarrow> exn + utext" where
  "tier1 fv max_items =
    (case read_text fv 1024 of
       Inl e \<Rightarrow> Inl e
     | Inr start_content \<Rightarrow>
         let clean_content = nan_to_null start_content in
         if startswith (strip clean_content) (str ''{'') then
           (let keys = tier1_keys clean_content in
            if keys \<noteq> [] then Inr (keys_including (unique_keys_loop max_items [] keys))
            else Inr (str ''JSON object (dictionary)''))
         else if startswith (strip clean_content) (str ''['') then Inr (str ''JSON array (list)'')
         else Inr (str ''Unknown JSON structure''))"

text \<open>
  The scan for the first complete object: \<open>bracket_scan s bracket_count i\<close> is the value
  of \<^verbatim>\<open>end_pos\<close> after the loop, started at index \<open>i\<close> on the text \<open>s\<close> that is left.
\<close>

fun bracket_scan :: "utext \<Rightarrow> int \<Rightarrow> nat \<Rightarrow> nat" where
  "bracket_scan [] bracket_count i = 0"
| "bracket_scan (c # cs) bracket_count i =
    (if c = ch CHR ''{'' then bracket_scan cs (bracket_count + 1) (i + 1)
     else if c = ch CHR ''}'' then
       (if bracket_count - 1 = 0 then i + 1
        else bracket_scan cs (bracket_count - 1) (i + 1))
     else bracket_scan cs bracket_count (i + 1))"

definition not_parsed :: utext where
  "not_parsed = str ''JSON structure detected, but details could not be parsed''"

text \<open>The body of the second \<^verbatim>\<open>try\<close>.\<close>

definition tier2 :: "nat \<Rightarrow> file_view \<Rightarrow> int \<Rightarrow> exn + utext" where
  "tier2 room fv max_items =
    (case read_text fv 10240 of
       Inl e \<Rightarrow> Inl e
     | Inr content \<Rightarrow>
         let clean_content = nan_to_null content in
         if startswith (strip clean_content) (str ''{'') then
           (let end_pos = bracket_scan clean_content 0 0 in
            if 0 < end_pos then
              (case json_loads room (take end_pos clean_content) of
                 Inl e \<Rightarrow> Inl e
               | Inr first_obj \<Rightarrow>
                   (case first_obj of
                      JObject d \<Rightarrow> Inr (keys_including (slice_to (map fst d) max_items))
                    | _ \<Rightarrow> Inl (AttributeError (str ''object has no attribute keys''))))
            else Inr not_parsed)
         else Inr not_parsed)"

text \<open>
  The body of the innermost \<^verbatim>\<open>try\<close>: one byte read in binary mode and decoded with
  \<^verbatim>\<open>errors='ignore'\<close>.
\<close>

definition tier3 :: "file_view \<Rightarrow> exn + utext" where
  "tier3 fv =
    (case fv of
       OpenFails e \<Rightarrow> Inl e
     | ReadFails e \<Rightarrow> Inl e
     | Holds bs \<Rightarrow>
         let first_char = utf8_decode_ignore (take 1 bs) in
         if first_char = str ''{'' then Inr (str ''JSON object (dictionary) with NaN values'')
         else if first_char = str ''['' then Inr (str ''JSON array (list) with NaN values'')
         else Inr (str ''Unknown JSON structure with possible NaN values''))"

text \<open>
  The three nested \<^verbatim>\<open>try\<close> blocks. The call is made when \<open>t\<close> opens have happened, and
  each attempt opens the file once more. The result is \<open>Inl\<close> if the function raises.
\<close>

definition analyze_json_structure :: "world \<Rightarrow> nat \<Rightarrow> utext \<Rightarrow> int \<Rightarrow> exn + utext" where
  "analyze_json_structure w t file_path max_items =
    (case tier1 (opened w t file_path) max_items of
       Inr s \<Rightarrow> Inr s
     | Inl e \<Rightarrow>
         (case tier2 (recursion_room w) (opened w (t + 1) file_path) max_items of
            Inr s \<Rightarrow> Inr s
          | Inl nested_e \<Rightarrow>
              (case tier3 (opened w (t + 2) file_path) of
                 Inr s \<Rightarrow> Inr s
               | Inl _ \<Rightarrow> Inr (str ''Could not analyze structure: '' @ exn_str e))))"

subsection \<open>\<^verbatim>\<open>preview_large_json\<close>\<close>

record probe_result =
  preview :: utext
  "structure" :: utext
  file_size :: nat

text \<open>The body of the \<^verbatim>\<open>try\<close>, and the function with its handler.\<close>

definition preview_body :: "world \<Rightarrow> utext \<Rightarrow> int \<Rightarrow> exn + probe_result" where
  "preview_body w file_path max_bytes =
    (case getsize w file_path of
       Inl e \<Rightarrow> Inl e
     | Inr fsize \<Rightarrow>
         (case read_text (opened w 0 file_path) max_bytes of
            Inl e \<Rightarrow> Inl e
          | Inr preview_data \<Rightarrow>
              (case analyze_json_structure w 1 file_path 5 of
                 Inl e \<Rightarrow> Inl e
               | Inr structure_info \<Rightarrow>
                   Inr \<lparr>preview = preview_data, structure = structure_info,
                        file_size = fsize\<rparr>)))"

definition preview_large_json :: "world \<Rightarrow> utext \<Rightarrow> int \<Rightarrow> exn + probe_result" where
  "preview_large_json w file_path max_bytes =
    (case preview_body w file_path max_bytes of
       Inr r \<Rightarrow> Inr r
     | Inl e \<Rightarrow>
         Inr \<lparr>preview = str ''Error reading file: '' @ exn_str e, structure = str ''Error'',
              file_size = 0\<rparr>)"

subsection \<open>\<^verbatim>\<open>format_file_size\<close>\<close>

text \<open>
  The argument is a Python \<^verbatim>\<open>int\<close>, and the first \<^verbatim>\<open>size_in_bytes /= 1024\<close> turns it
  into a \<^verbatim>\<open>float\<close>. A finite binary64 value is a rational number, so the values are kept
  as rationals and the one place where binary64 rounds is written out: the conversion of
  an integer of more than 53 bits (to the nearest value of 53 significant bits, ties to
  even). Dividing a binary64 value of at least 1024 by 1024 is exact.
\<close>

datatype number = PyInt nat | PyFloat rat

function bit_length :: "nat \<Rightarrow> nat" where
  "bit_length n = (if n = 0 then 0 else Suc (bit_length (n div 2)))"
  by pat_completeness auto
termination
  by (relation "measure id") simp_all

declare bit_length.simps [simp del]

definition round53 :: "nat \<Rightarrow> nat" where
  "round53 n =
    (if bit_length n \<le> 53 then n
     else
       let sh = bit_length n - 53; q = n div 2 ^ sh; r = n mod 2 ^ sh
       in (if 2 ^ sh < 2 * r \<or> (2 * r = 2 ^ sh \<and> odd q) then q + 1 else q) * 2 ^ sh)"

definition too_large :: exn where
  "too_large = OverflowError (str ''integer division result too large for a float'')"

text \<open>\<^verbatim>\<open>x / 1024\<close>, and the value \<^verbatim>\<open>float(x)\<close> that \<^verbatim>\<open>.2f\<close> formats.\<close>

fun truediv_1024 :: "number \<Rightarrow> exn + number" where
  "truediv_1024 (PyInt n) =
    (if 2 ^ 1034 \<le> round53 n then Inl too_large else Inr (PyFloat (of_nat (round53 n) / 1024)))"
| "truediv_1024 (PyFloat x) = Inr (PyFloat (x / 1024))"

fun as_float :: "number \<Rightarrow> exn + rat" where
  "as_float (PyInt n) =
    (if 2 ^ 1024 \<le> round53 n
     then Inl (OverflowError (str ''int too large to convert to float''))
     else Inr (of_nat (round53 n)))"
| "as_float (PyFloat x) = Inr x"

fun less_1024 :: "number \<Rightarrow> bool" where
  "less_1024 (PyInt n) = (n < 1024)"
| "less_1024 (PyFloat x) = (x < 1024)"

function decimal :: "nat \<Rightarrow> utext" where
  "decimal n = (if n < 10 then [48 + n] else decimal (n div 10) @ [48 + n mod 10])"
  by pat_completeness auto
termination
  by (relation "measure id") simp_all

declare decimal.simps [simp del]

definition round_half_even :: "rat \<Rightarrow> int" where
  "round_half_even x =
    (let f = \<lfloor>x\<rfloor>; r = x - of_int f
     in if r < 1 / 2 then f else if 1 / 2 < r then f + 1 else if even f then f else f + 1)"

text \<open>
  \<^verbatim>\<open>f"{x:.2f}"\<close> for a value that is not negative: the exact value rounded to hundredths,
  ties to even, written with two decimals.
\<close>

definition format_2f :: "rat \<Rightarrow> utext" where
  "format_2f x =
    (let m = nat (round_half_even (x * 100))
     in decimal (m div 100) @ str ''.'' @ [48 + m mod 100 div 10, 48 + m mod 10])"

text \<open>
  The loop over the units; \<open>None\<close> is the \<^verbatim>\<open>None\<close> a Python function returns when its
  body ends without a \<^verbatim>\<open>return\<close>.
\<close>

fun format_loop :: "number \<Rightarrow> utext list \<Rightarrow> exn + utext option" where
  "format_loop size_in_bytes [] = Inr None"
| "format_loop size_in_bytes (unit # units) =
    (if less_1024 size_in_bytes \<or> unit = str ''GB'' then
       (case as_float size_in_bytes of
          Inl e \<Rightarrow> Inl e
        | Inr x \<Rightarrow> Inr (Some (format_2f x @ str '' '' @ unit)))
     else
       (case truediv_1024 size_in_bytes of
          Inl e \<Rightarrow> Inl e
        | Inr q \<Rightarrow> format_loop q units))"

definition format_file_size :: "nat \<Rightarrow> exn + utext option" where
  "format_file_size size_in_bytes =
    format_loop (PyInt size_in_bytes) [str ''B'', str ''KB'', str ''MB'', str ''GB'']"

section \<open>Sample file systems\<close>

text \<open>
  \<open>steady_world bs\<close>: every path names a file of content \<open>bs\<close> that does not change.
  \<open>missing_world\<close>: no path names a file. \<open>late_world bs\<close>: the first open of a run
  fails and the file of content \<open>bs\<close> is there from the second open on.
\<close>

definition not_found :: exn where
  "not_found = OSError (str ''[Errno 2] No such file or directory'')"

definition steady_world :: "byte list \<Rightarrow> world" where
  "steady_world bs =
    \<lparr>getsize = (\<lambda>p. Inr (length bs)), opened = (\<lambda>n p. Holds bs), recursion_room = 1000\<rparr>"

definition missing_world :: world where
  "missing_world =
    \<lparr>getsize = (\<lambda>p. Inl not_found), opened = (\<lambda>n p. OpenFails not_found),
     recursion_room = 1000\<rparr>"

definition late_world :: "byte list \<Rightarrow> world" where
  "late_world bs =
    \<lparr>getsize = (\<lambda>p. Inr (length bs)),
     opened = (\<lambda>n p. if n = 0 then OpenFails not_found else Holds bs),
     recursion_room = 1000\<rparr>"

section \<open>Properties\<close>

subsection \<open>Facts about the string functions\<close>






lemmas eval_defs = str_def ch_def ascii_def decode_file_def nan_to_null_def startswith_def
  strip_def is_space_def tier1_def tier1_keys_def colon_ahead_def keys_including_def
  py_ssize_t_max_def is_continuation_byte_def Let_def





















subsection \<open>Neither function raises\<close>

lemma analyze_returns:
  "\<exists>s. analyze_json_structure w t file_path max_items = Inr s"
  by (simp add: analyze_json_structure_def split: sum.split)

text \<open>
  Claim C1. For every file path and every preview budget, \<^verbatim>\<open>preview_large_json\<close> returns
  a result record and never raises, and so does the call of \<^verbatim>\<open>analyze_json_structure\<close>
  inside it (for every state of the file system at each of its opens, and every
  \<^verbatim>\<open>max_items\<close>): every exception of every tier and of the preview read ends in a
  handler that returns a description.
\<close>

theorem probe_never_raises:
  "(\<exists>r. preview_large_json w file_path max_bytes = Inr r)
   \<and> (\<exists>s. analyze_json_structure w t file_path max_items = Inr s)"
  by (simp add: preview_large_json_def analyze_returns split: sum.split)

subsection \<open>A failing preview read\<close>

text \<open>
  Claim C6. When the read of the preview fails, because \<^verbatim>\<open>os.path.getsize\<close> raises
  (as it does for a path that does not exist) or because opening or reading the file
  raises, the probe does not raise: it returns a result whose file size is 0 and whose
  preview text is \<^verbatim>\<open>Error reading file: \<close> followed by the message of the exception.
\<close>

theorem read_failure_result:
  assumes "getsize w file_path = Inl e
           \<or> (\<exists>fsize. getsize w file_path = Inr fsize)
             \<and> read_text (opened w 0 file_path) max_bytes = Inl e"
  shows "\<exists>r. preview_large_json w file_path max_bytes = Inr r
             \<and> file_size r = 0
             \<and> preview r = str ''Error reading file: '' @ exn_str e
             \<and> startswith (preview r) (str ''Error reading file:'')"
  using assms
  by (auto simp: preview_large_json_def preview_body_def startswith_def str_def)

theorem read_failure_result_witness:
  "getsize missing_world (str ''missing.json'') = Inl not_found
   \<and> (\<exists>r. preview_large_json missing_world (str ''missing.json'') 10240 = Inr r
          \<and> file_size r = 0
          \<and> preview r = str ''Error reading file: '' @ exn_str not_found
          \<and> startswith (preview r) (str ''Error reading file:''))"
proof -
  have h: "getsize missing_world (str ''missing.json'') = Inl not_found"
    by (simp add: missing_world_def)
  from h read_failure_result [of missing_world "str ''missing.json''" not_found 10240]
  show ?thesis by blast
qed

text \<open>
  Claim C9. When \<^verbatim>\<open>os.path.getsize\<close> or the open or read of the preview raises, the
  structure description of the result is exactly \<^verbatim>\<open>Error\<close>, and
  \<^verbatim>\<open>analyze_json_structure\<close> is not called: the result is the same in every file system
  that agrees on the size query and on the first open, whatever the later opens would
  have seen.
\<close>

theorem read_failure_suppresses_sniffer:
  assumes "isl (getsize w file_path) \<or> isl (read_text (opened w 0 file_path) max_bytes)"
  shows "\<exists>r. preview_large_json w file_path max_bytes = Inr r
             \<and> structure r = str ''Error''
             \<and> (\<forall>w'. getsize w' = getsize w \<and> opened w' 0 = opened w 0
                   \<longrightarrow> preview_large_json w' file_path max_bytes = Inr r)"
  using assms
  by (auto simp: preview_large_json_def preview_body_def isl_def split: sum.split)

theorem read_failure_suppresses_sniffer_witness:
  "isl (read_text (opened (late_world (ascii ''[1, 2]'')) 0 (str ''a.json'')) 10240)
   \<and> (\<exists>r. preview_large_json (late_world (ascii ''[1, 2]'')) (str ''a.json'') 10240 = Inr r
          \<and> structure r = str ''Error''
          \<and> (\<forall>w'. getsize w' = getsize (late_world (ascii ''[1, 2]''))
                    \<and> opened w' 0 = opened (late_world (ascii ''[1, 2]'')) 0
                \<longrightarrow> preview_large_json w' (str ''a.json'') 10240 = Inr r))"
proof -
  have h: "isl (read_text (opened (late_world (ascii ''[1, 2]'')) 0 (str ''a.json'')) 10240)"
    by (simp add: late_world_def)
  from h read_failure_suppresses_sniffer
         [of "late_world (ascii ''[1, 2]'')" "str ''a.json''" 10240]
  show ?thesis by blast
qed

subsection \<open>The substitution of \<^verbatim>\<open>NaN\<close>\<close>

lemma nan_file_tier1:
  \<open>tier1 (Holds (ascii ''{"x": NaN, "y": 2}'')) 5
     = Inr (str ''JSON object with keys including: x, y'')\<close>
  by (simp add: eval_defs)

lemma nan_file_text:
  \<open>decode_file (ascii ''{"x": NaN, "y": 2}'') = str ''{"x": NaN, "y": 2}''\<close>
  by (simp add: eval_defs)

lemma nan_file_clean:
  \<open>nan_to_null (str ''{"x": NaN, "y": 2}'') = str ''{"x": null, "y": 2}''\<close>
  by (simp add: eval_defs)

lemma nan_file_keys:
  \<open>unique_keys_loop 5 [] (tier1_keys (str ''{"x": null, "y": 2}'')) = [str ''x'', str ''y'']\<close>
  by (simp add: eval_defs)

text \<open>
  Claim C5. For a file whose whole content is \<^verbatim>\<open>{"x": NaN, "y": 2}\<close>, the first
  attempt succeeds, so that no later attempt is made: the text it works on is
  \<^verbatim>\<open>{"x": null, "y": 2}\<close>, the token \<^verbatim>\<open>NaN\<close> replaced by \<^verbatim>\<open>null\<close>, the keys it
  collects are \<^verbatim>\<open>x\<close> and \<^verbatim>\<open>y\<close> in that order, and the description names exactly these.
\<close>

theorem nan_file_fast_path:
  assumes \<open>opened w t file_path = Holds (ascii ''{"x": NaN, "y": 2}'')\<close>
  shows \<open>tier1 (opened w t file_path) 5 = Inr (str ''JSON object with keys including: x, y'')
       \<and> analyze_json_structure w t file_path 5
           = Inr (str ''JSON object with keys including: x, y'')
       \<and> nan_to_null (decode_file (ascii ''{"x": NaN, "y": 2}'')) = str ''{"x": null, "y": 2}''
       \<and> unique_keys_loop 5 []
             (tier1_keys (nan_to_null (decode_file (ascii ''{"x": NaN, "y": 2}''))))
           = [str ''x'', str ''y'']\<close>
  by (simp only: assms nan_file_tier1 nan_file_text nan_file_clean nan_file_keys
      analyze_json_structure_def sum.case simp_thms)

theorem nan_file_fast_path_witness:
  \<open>preview_large_json (steady_world (ascii ''{"x": NaN, "y": 2}'')) (str ''data.json'') 10240
     = Inr \<lparr>preview = str ''{"x": NaN, "y": 2}'',
            structure = str ''JSON object with keys including: x, y'',
            file_size = 18\<rparr>\<close>
proof -
  have h: \<open>opened (steady_world (ascii ''{"x": NaN, "y": 2}'')) 1 (str ''data.json'')
             = Holds (ascii ''{"x": NaN, "y": 2}'')\<close>
    by (simp add: steady_world_def)
  have g: \<open>getsize (steady_world (ascii ''{"x": NaN, "y": 2}'')) (str ''data.json'') = Inr 18\<close>
    by (simp add: steady_world_def ascii_def)
  have r: \<open>read_text (opened (steady_world (ascii ''{"x": NaN, "y": 2}'')) 0 (str ''data.json''))
             10240 = Inr (str ''{"x": NaN, "y": 2}'')\<close>
    by (simp add: steady_world_def eval_defs)
  from nan_file_fast_path [OF h] g r show ?thesis
    by (simp add: preview_large_json_def preview_body_def)
qed

subsection \<open>A parse failure in the second attempt\<close>

lemmas json_defs = json_loads_def skip_ws_def is_json_ws_def read_key_def after_value_def
  scan_constant_def match_number_def is_digit_def json_error_def expecting_value_def
  string_cons_def

lemma bad_object_text:
  \<open>read_text (Holds (ascii ''{x}'')) 10240 = Inr (str ''{x}'')\<close>
  by (simp add: eval_defs)

lemma bad_object_clean: \<open>nan_to_null (str ''{x}'') = str ''{x}''\<close>
  by (simp add: eval_defs)

lemma bad_object_scan: \<open>bracket_scan (str ''{x}'') 0 0 = 3\<close>
  by (simp add: eval_defs)

lemma bad_object_loads:
  \<open>json_loads 1000 (str ''{x}'')
     = Inl (JSONDecodeError (str ''Expecting property name enclosed in double quotes''))\<close>
  by (simp add: eval_defs json_defs)

lemma bad_object_start: \<open>startswith (strip (str ''{x}'')) (str ''{'')\<close>
  by (simp add: eval_defs)

lemma bad_object_take: \<open>take 3 (str ''{x}'') = str ''{x}''\<close>
  by (simp add: str_def)

lemma bad_object_tier2:
  \<open>tier2 1000 (Holds (ascii ''{x}'')) 5
     = Inl (JSONDecodeError (str ''Expecting property name enclosed in double quotes''))\<close>
  by (simp add: tier2_def bad_object_text bad_object_clean bad_object_scan bad_object_start
      bad_object_take bad_object_loads del: read_text.simps)

lemma bad_object_tier3:
  \<open>tier3 (Holds (ascii ''{x}'')) = Inr (str ''JSON object (dictionary) with NaN values'')\<close>
  by (simp add: tier3_def eval_defs)

lemma description_not_parsed_differs:
  "(case tier3 fv of Inr s \<Rightarrow> Inr s
              | Inl x \<Rightarrow> Inr (str ''Could not analyze structure: '' @ m)) \<noteq> Inr not_parsed"
  by (simp add: tier3_def not_parsed_def str_def Let_def ch_def split: file_view.split)

text \<open>
  Claim C2, as the specification states it, fails: with the first attempt failed, the
  second attempt reading \<^verbatim>\<open>{x}\<close> finds the text starting with a brace, the scan
  returning to depth zero at position 3 and \<^verbatim>\<open>json.loads\<close> raising; the exception leaves
  the second \<^verbatim>\<open>try\<close> and the description is the one of the third attempt, not
  \<^verbatim>\<open>JSON structure detected, but details could not be parsed\<close>.
\<close>

theorem parse_failure_counterexample:
  \<open>tier1 (opened (late_world (ascii ''{x}'')) 0 (str ''a.json'')) 5 = Inl not_found
   \<and> read_text (opened (late_world (ascii ''{x}'')) 1 (str ''a.json'')) 10240 = Inr (str ''{x}'')
   \<and> startswith (strip (nan_to_null (str ''{x}''))) (str ''{'')
   \<and> bracket_scan (nan_to_null (str ''{x}'')) 0 0 = 3
   \<and> isl (json_loads (recursion_room (late_world (ascii ''{x}'')))
            (take 3 (nan_to_null (str ''{x}''))))
   \<and> analyze_json_structure (late_world (ascii ''{x}'')) 0 (str ''a.json'') 5
       = Inr (str ''JSON object (dictionary) with NaN values'')
   \<and> analyze_json_structure (late_world (ascii ''{x}'')) 0 (str ''a.json'') 5
       \<noteq> Inr not_parsed\<close>
proof -
  have a: \<open>tier1 (opened (late_world (ascii ''{x}'')) 0 (str ''a.json'')) 5 = Inl not_found\<close>
    by (simp add: late_world_def tier1_def)
  have b: \<open>read_text (opened (late_world (ascii ''{x}'')) 1 (str ''a.json'')) 10240
            = Inr (str ''{x}'')\<close>
  proof -
    have \<open>opened (late_world (ascii ''{x}'')) 1 (str ''a.json'') = Holds (ascii ''{x}'')\<close>
      by (simp add: late_world_def)
    then show ?thesis by (simp only: bad_object_text)
  qed
  have c: \<open>startswith (strip (nan_to_null (str ''{x}''))) (str ''{'')\<close>
    by (simp only: bad_object_clean bad_object_start)
  have d: \<open>isl (json_loads (recursion_room (late_world (ascii ''{x}'')))
                (take 3 (nan_to_null (str ''{x}''))))\<close>
    by (simp add: late_world_def bad_object_clean bad_object_take bad_object_loads)
  have e: \<open>analyze_json_structure (late_world (ascii ''{x}'')) 0 (str ''a.json'') 5
            = Inr (str ''JSON object (dictionary) with NaN values'')\<close>
    by (simp add: analyze_json_structure_def late_world_def tier1_def bad_object_tier2
        bad_object_tier3)
  have f: \<open>str ''JSON object (dictionary) with NaN values'' \<noteq> not_parsed\<close>
    by (simp add: not_parsed_def str_def)
  from a b c d e f show ?thesis
    by (simp only: bad_object_clean bad_object_scan simp_thms sum.inject)
qed

text \<open>
  Claim C2, amended. In the second attempt, when the cleaned text starts with a brace (after
  leading whitespace), the scan finds the end of a first object and \<^verbatim>\<open>json.loads\<close> raises
  on that substring, control passes to the third attempt: the description is what the
  third attempt returns from the first byte of the file, or, when that attempt fails too,
  \<^verbatim>\<open>Could not analyze structure: \<close> with the message of the first attempt's exception.
  It is never \<^verbatim>\<open>JSON structure detected, but details could not be parsed\<close>.
\<close>

theorem parse_failure_goes_to_tier3:
  assumes "tier1 (opened w t file_path) max_items = Inl e"
    and "read_text (opened w (t + 1) file_path) 10240 = Inr content"
    and "startswith (strip (nan_to_null content)) (str ''{'')"
    and "0 < bracket_scan (nan_to_null content) 0 0"
    and "isl (json_loads (recursion_room w)
               (take (bracket_scan (nan_to_null content) 0 0) (nan_to_null content)))"
  shows "analyze_json_structure w t file_path max_items
          = (case tier3 (opened w (t + 2) file_path) of
               Inr s \<Rightarrow> Inr s
             | Inl x \<Rightarrow> Inr (str ''Could not analyze structure: '' @ exn_str e))
       \<and> analyze_json_structure w t file_path max_items \<noteq> Inr not_parsed"
proof -
  from assms(5) obtain err where
    "json_loads (recursion_room w)
       (take (bracket_scan (nan_to_null content) 0 0) (nan_to_null content)) = Inl err"
    by (auto simp: isl_def)
  then have "tier2 (recursion_room w) (opened w (t + 1) file_path) max_items = Inl err"
    using assms(2,3,4) by (simp add: tier2_def)
  then have "analyze_json_structure w t file_path max_items
          = (case tier3 (opened w (t + 2) file_path) of
               Inr s \<Rightarrow> Inr s
             | Inl x \<Rightarrow> Inr (str ''Could not analyze structure: '' @ exn_str e))"
    using assms(1) by (simp add: analyze_json_structure_def)
  then show ?thesis by (simp only: description_not_parsed_differs simp_thms)
qed

theorem parse_failure_goes_to_tier3_witness:
  \<open>isl (json_loads (recursion_room (late_world (ascii ''{"a": 1,}'')))
         (take (bracket_scan (nan_to_null (str ''{"a": 1,}'')) 0 0)
               (nan_to_null (str ''{"a": 1,}''))))
   \<and> analyze_json_structure (late_world (ascii ''{"a": 1,}'')) 0 (str ''a.json'') 5
       = Inr (str ''JSON object (dictionary) with NaN values'')\<close>
proof -
  let ?w = \<open>late_world (ascii ''{"a": 1,}'')\<close>
  have h1: \<open>tier1 (opened ?w 0 (str ''a.json'')) 5 = Inl not_found\<close>
    by (simp add: late_world_def tier1_def)
  have h2: \<open>read_text (opened ?w (0 + 1) (str ''a.json'')) 10240 = Inr (str ''{"a": 1,}'')\<close>
    by (simp add: late_world_def eval_defs)
  have cl: \<open>nan_to_null (str ''{"a": 1,}'') = str ''{"a": 1,}''\<close>
    by (simp add: eval_defs)
  have sc: \<open>bracket_scan (str ''{"a": 1,}'') 0 0 = 9\<close>
    by (simp add: eval_defs)
  have h3: \<open>startswith (strip (nan_to_null (str ''{"a": 1,}''))) (str ''{'')\<close>
    by (simp add: eval_defs)
  have h4: \<open>0 < bracket_scan (nan_to_null (str ''{"a": 1,}'')) 0 0\<close>
    by (simp add: cl sc)
  have h5: \<open>isl (json_loads (recursion_room ?w)
         (take (bracket_scan (nan_to_null (str ''{"a": 1,}'')) 0 0)
               (nan_to_null (str ''{"a": 1,}''))))\<close>
    by (simp add: cl sc late_world_def) (simp add: eval_defs json_defs)
  have t3: \<open>tier3 (opened ?w (0 + 2) (str ''a.json''))
             = Inr (str ''JSON object (dictionary) with NaN values'')\<close>
    by (simp add: late_world_def tier3_def eval_defs)
  from parse_failure_goes_to_tier3 [OF h1 h2 h3 h4 h5] h5 t3
  show ?thesis by simp
qed

subsection \<open>Key names that contain \<^verbatim>\<open>NaN\<close>\<close>













end
